theory Spec2Isabelle
  imports Complex_Main "HOL-Library.Multiset"
begin

unbundle bit_operations_syntax

section \<open>Python values used by cryptonoise_ksampler.py\<close>

text \<open>
  Exceptions are values (\<open>Raised\<close>). \<open>OutsideModel\<close> is not a Python exception: it marks the
  one place where the embedding stops (numpy arithmetic with a block size below
  \<open>- 2 ^ 63\<close>, which depends on the numpy version). It is never caught by the model of
  \<open>except Exception\<close>, so no theorem below can speak about such a run.
\<close>

datatype exn = UnicodeEncodeError | ValueError | IndexError | ZeroDivisionError | RuntimeError

datatype error = Raised exn | OutsideModel

text \<open>
  A Python \<open>str\<close> is a sequence of code points; \<open>artist_key\<close> is kept that way
  because its UTF-8 encoding matters. A byte is a number below 256.
\<close>

type_synonym pystr = "nat list"
type_synonym bytes = "nat list"

definition str_of :: "string \<Rightarrow> pystr" where
  "str_of s = map of_char s"

text \<open>
  \<open>str.encode('utf-8')\<close>: one to four bytes per code point; a surrogate
  (U+D800..U+DFFF) has no encoding and raises UnicodeEncodeError. Code points above
  U+10FFFF do not occur in a Python string.
\<close>

definition utf8_char :: "nat \<Rightarrow> error + bytes" where
  "utf8_char cp =
     (if cp < 0x80 then Inr [cp]
      else if cp < 0x800 then Inr [0xC0 + cp div 64, 0x80 + cp mod 64]
      else if 0xD800 \<le> cp \<and> cp < 0xE000 then Inl (Raised UnicodeEncodeError)
      else if cp < 0x10000 then
        Inr [0xE0 + cp div 4096, 0x80 + cp div 64 mod 64, 0x80 + cp mod 64]
      else Inr [0xF0 + cp div 262144 mod 8, 0x80 + cp div 4096 mod 64,
                0x80 + cp div 64 mod 64, 0x80 + cp mod 64])"

fun encode_utf8 :: "pystr \<Rightarrow> error + bytes" where
  "encode_utf8 [] = Inr []"
| "encode_utf8 (cp # cps) =
     (case utf8_char cp of
        Inl e \<Rightarrow> Inl e
      | Inr bs \<Rightarrow> (case encode_utf8 cps of Inl e \<Rightarrow> Inl e | Inr rest \<Rightarrow> Inr (bs @ rest)))"

text \<open>\<open>bytes.hex()\<close>: two lowercase hexadecimal digits per byte.\<close>

definition hex_digit :: "nat \<Rightarrow> char" where
  "hex_digit n = ''0123456789abcdef'' ! (n mod 16)"

definition hex :: "bytes \<Rightarrow> string" where
  "hex bs = concat (map (\<lambda>b. [hex_digit (b div 16), hex_digit b]) bs)"

text \<open>\<open>int.from_bytes(bs, 'big')\<close>.\<close>

definition from_bytes_big :: "bytes \<Rightarrow> nat" where
  "from_bytes_big bs = foldl (\<lambda>acc b. acc * 256 + b) 0 bs"

section \<open>hashlib.sha256 (FIPS 180-4)\<close>

text \<open>
  The digest the source obtains from \<open>hashlib.sha256(...).digest()\<close>. 32-bit words are
  integers with the reduction modulo \<open>2 ^ 32\<close> written out; a right rotation by \<open>n\<close>
  is given by the pair \<open>2 ^ n\<close>, \<open>2 ^ (32 - n)\<close>. The round constants and the initial
  hash value are written in decimal.
\<close>

definition K256 :: "int list" where
  "K256 = [
   1116352408, 1899447441, 3049323471, 3921009573, 961987163, 1508970993,
   2453635748, 2870763221, 3624381080, 310598401, 607225278, 1426881987,
   1925078388, 2162078206, 2614888103, 3248222580, 3835390401, 4022224774,
   264347078, 604807628, 770255983, 1249150122, 1555081692, 1996064986,
   2554220882, 2821834349, 2952996808, 3210313671, 3336571891, 3584528711,
   113926993, 338241895, 666307205, 773529912, 1294757372, 1396182291,
   1695183700, 1986661051, 2177026350, 2456956037, 2730485921, 2820302411,
   3259730800, 3345764771, 3516065817, 3600352804, 4094571909, 275423344,
   430227734, 506948616, 659060556, 883997877, 958139571, 1322822218,
   1537002063, 1747873779, 1955562222, 2024104815, 2227730452, 2361852424,
   2428436474, 2756734187, 3204031479, 3329325298]"

definition H256 :: "int list" where
  "H256 = [1779033703, 3144134277, 1013904242, 2773480762,
           1359893119, 2600822924, 528734635, 1541459225]"

definition add32 :: "int \<Rightarrow> int \<Rightarrow> int" where
  "add32 x y = (x + y) mod 4294967296"

definition rotr :: "int \<Rightarrow> int \<Rightarrow> int \<Rightarrow> int" where
  "rotr p q x = x div p + (x mod p) * q"

definition Ch :: "int \<Rightarrow> int \<Rightarrow> int \<Rightarrow> int" where
  "Ch x y z = (x AND y) XOR ((4294967295 - x) AND z)"

definition Maj :: "int \<Rightarrow> int \<Rightarrow> int \<Rightarrow> int" where
  "Maj x y z = (x AND y) XOR (x AND z) XOR (y AND z)"

definition bsig0 :: "int \<Rightarrow> int" where
  "bsig0 x = rotr 4 1073741824 x XOR rotr 8192 524288 x XOR rotr 4194304 1024 x"

definition bsig1 :: "int \<Rightarrow> int" where
  "bsig1 x = rotr 64 67108864 x XOR rotr 2048 2097152 x XOR rotr 33554432 128 x"

definition ssig0 :: "int \<Rightarrow> int" where
  "ssig0 x = rotr 128 33554432 x XOR rotr 262144 16384 x XOR (x div 8)"

definition ssig1 :: "int \<Rightarrow> int" where
  "ssig1 x = rotr 131072 32768 x XOR rotr 524288 8192 x XOR (x div 1024)"

text \<open>
  The message schedule: one word leaves the 16-word window and one enters for each of the
  48 remaining round constants, then the window is emitted.
\<close>

fun sched :: "int list \<Rightarrow> int list \<Rightarrow> int list" where
  "sched (k # ks) (w0 # w1 # w2 # w3 # w4 # w5 # w6 # w7 # w8 # w9 # w10 # w11 # w12 # w13 #
       w14 # w15 # r) =
     w0 # sched ks (w1 # w2 # w3 # w4 # w5 # w6 # w7 # w8 # w9 # w10 # w11 # w12 # w13 # w14 #
       w15 # [add32 (add32 (ssig1 w14) w9) (add32 (ssig0 w1) w0)])"
| "sched _ w = w"

fun sha_round :: "int list \<Rightarrow> (int \<times> int) \<Rightarrow> int list" where
  "sha_round [a, b, c, d, e, f, g, h] (k, w) =
     (let t1 = add32 (add32 (add32 h (bsig1 e)) (add32 (Ch e f g) k)) w;
          t2 = add32 (bsig0 a) (Maj a b c)
      in [add32 t1 t2, a, b, c, add32 d t1, e, f, g])"
| "sha_round s _ = s"

definition compress :: "int list \<Rightarrow> int list \<Rightarrow> int list" where
  "compress h w16 = map2 add32 h (foldl sha_round h (zip K256 (sched (drop 16 K256) w16)))"

fun be_bytes :: "nat \<Rightarrow> nat \<Rightarrow> bytes" where
  "be_bytes 0 v = []"
| "be_bytes (Suc n) v = (v div 256 ^ n) mod 256 # be_bytes n v"

definition sha_pad :: "bytes \<Rightarrow> bytes" where
  "sha_pad m = m @ [0x80] @ replicate ((119 - length m mod 64) mod 64) 0
                 @ be_bytes 8 (8 * length m)"

fun chunks :: "nat \<Rightarrow> nat \<Rightarrow> 'a list \<Rightarrow> 'a list list" where
  "chunks 0 k xs = []"
| "chunks (Suc n) k xs = take k xs # chunks n k (drop k xs)"

definition sha_words :: "bytes \<Rightarrow> int list" where
  "sha_words blk = map (\<lambda>w. int (from_bytes_big w)) (chunks 16 4 blk)"

definition sha256 :: "bytes \<Rightarrow> bytes" where
  "sha256 m =
     (let p = sha_pad m
      in concat (map (\<lambda>w. be_bytes 4 (nat w))
           (foldl compress H256 (map sha_words (chunks (length p div 64) 64 p)))))"

section \<open>Identity derivation\<close>

text \<open>
  The dict returned by \<open>_derive_crypto_identity\<close>. \<open>time.time()\<close> is the clock reading
  \<open>now\<close>, an argument of the model: two calls may read different clocks.
\<close>

record identity =
  key_hash :: string
  seed :: nat
  artist_key_length :: nat
  shape :: "nat \<times> nat \<times> nat \<times> nat"
  timestamp :: real

definition derive_crypto_identity ::
    "real \<Rightarrow> pystr \<Rightarrow> nat \<times> nat \<times> nat \<times> nat \<Rightarrow> error + identity" where
  "derive_crypto_identity now artist_key shp =
     (case encode_utf8 artist_key of
        Inl e \<Rightarrow> Inl e
      | Inr encoded \<Rightarrow>
          (let hash_digest = sha256 encoded;
               kh = hex hash_digest;
               sd = from_bytes_big (take 8 hash_digest) mod 2 ^ 32
           in Inr \<lparr>key_hash = kh, seed = sd, artist_key_length = length artist_key,
                   shape = shp, timestamp = now\<rparr>))"

text \<open>The label built in \<open>sample\<close> and again in \<open>_build_verification_info\<close>.\<close>

definition signature_of :: "identity \<Rightarrow> string" where
  "signature_of ident = ''CN-'' @ take 16 (key_hash ident)"

section \<open>Tensors and the libraries the source calls\<close>

text \<open>
  A torch tensor with axes (B, C, H, W): its shape, and its elements as nested lists
  indexed \<open>[b][c][y][x]\<close>. The element type \<open>'a\<close> is the tensor's float dtype, left
  abstract.
\<close>

record 'a tensor =
  tshape :: "nat \<times> nat \<times> nat \<times> nat"
  vals :: "'a list list list list"

definition wf_channel :: "nat \<Rightarrow> nat \<Rightarrow> 'a list list \<Rightarrow> bool" where
  "wf_channel H W ch = (length ch = H \<and> (\<forall>row \<in> set ch. length row = W))"

definition wf_tensor :: "'a tensor \<Rightarrow> bool" where
  "wf_tensor t =
     (case tshape t of (B, C, H, W) \<Rightarrow>
        length (vals t) = B \<and>
        (\<forall>img \<in> set (vals t). length img = C \<and> (\<forall>ch \<in> set img. wf_channel H W ch)))"

text \<open>The element \<open>t[b, c, y, x]\<close>, for indices inside the shape.\<close>

definition elem :: "'a tensor \<Rightarrow> nat \<Rightarrow> nat \<Rightarrow> nat \<Rightarrow> nat \<Rightarrow> 'a" where
  "elem t b c y x = vals t ! b ! c ! y ! x"

text \<open>
  What the source takes from torch and numpy, as parameters of the model:
  \<^item> \<open>randn sd shp\<close>: \<open>torch.randn(shp, generator=g, dtype=..., device=...)\<close> with
    \<open>g\<close> a fresh \<open>torch.Generator()\<close> after \<open>manual_seed(sd)\<close>; it may raise (for
    example when the latent lives on another device than the CPU generator);
  \<^item> \<open>permutation sd n\<close>: \<open>np.random.RandomState(sd).permutation(n)\<close> for a seed
    numpy accepts;
  \<^item> \<open>tzero\<close>, \<open>tmul\<close>, \<open>tadd\<close>: the dtype's zero, the product of an element with a
    Python float, and the sum of two elements.
  Both generators are functions of their seed: a generator seeded afresh returns the same
  draw for the same seed (same platform, same dtype).
\<close>

record 'a env =
  randn :: "nat \<Rightarrow> nat \<times> nat \<times> nat \<times> nat \<Rightarrow> exn + 'a tensor"
  permutation :: "nat \<Rightarrow> nat \<Rightarrow> nat list"
  tzero :: 'a
  tmul :: "'a \<Rightarrow> real \<Rightarrow> 'a"
  tadd :: "'a \<Rightarrow> 'a \<Rightarrow> 'a"

text \<open>
  \<open>np.random.RandomState(s).permutation(n)\<close>: the constructor raises ValueError unless
  \<open>0 \<le> s \<le> 2 ^ 32 - 1\<close> (the source's comment at the seed derivation: "limited to
  32-bit for numpy").
\<close>

definition RandomState_permutation :: "'a env \<Rightarrow> nat \<Rightarrow> nat \<Rightarrow> error + nat list" where
  "RandomState_permutation env s n =
     (if s < 2 ^ 32 then Inr (permutation env s n) else Inl (Raised ValueError))"

text \<open>The first exception of a sequence of results, in loop order, or all the values.\<close>

fun collect :: "(error + 'a) list \<Rightarrow> error + 'a list" where
  "collect [] = Inr []"
| "collect (Inl e # rs) = Inl e"
| "collect (Inr x # rs) = (case collect rs of Inl e \<Rightarrow> Inl e | Inr xs \<Rightarrow> Inr (x # xs))"

section \<open>Pixel shuffle\<close>

text \<open>\<open>flat[perm]\<close>: torch raises IndexError for an index out of range.\<close>

definition gather :: "'a list \<Rightarrow> nat list \<Rightarrow> error + 'a list" where
  "gather flat perm =
     (if \<forall>i \<in> set perm. i < length flat then Inr (map (\<lambda>i. flat ! i) perm)
      else Inl (Raised IndexError))"

text \<open>\<open>.reshape(H, W)\<close>: row-major; torch raises RuntimeError when the sizes disagree.\<close>

definition reshape :: "nat \<Rightarrow> nat \<Rightarrow> 'a list \<Rightarrow> error + 'a list list" where
  "reshape H W xs =
     (if length xs = H * W then Inr (map (\<lambda>y. take W (drop (y * W) xs)) [0..<H])
      else Inl (Raised RuntimeError))"

text \<open>
  The body of the two loops of \<open>_shuffle_pixels\<close> for one pair \<open>(b, c)\<close>;
  \<open>ch\<close> is \<open>latent[b, c]\<close> and \<open>concat ch\<close> its \<open>flatten()\<close>.
\<close>

definition shuffle_pixels_slice ::
    "'a env \<Rightarrow> identity \<Rightarrow> nat \<Rightarrow> nat \<Rightarrow> nat \<Rightarrow> nat \<Rightarrow> nat \<Rightarrow> 'a list list
       \<Rightarrow> error + 'a list list" where
  "shuffle_pixels_slice env ident C H W b c ch =
     (let channel_seed = seed ident + b * C + c;
          flat = concat ch
      in case RandomState_permutation env channel_seed (length flat) of
           Inl e \<Rightarrow> Inl e
         | Inr perm \<Rightarrow>
             (case gather flat perm of
                Inl e \<Rightarrow> Inl e
              | Inr g \<Rightarrow> reshape H W g))"

definition shuffle_pixels :: "'a env \<Rightarrow> 'a tensor \<Rightarrow> identity \<Rightarrow> error + 'a tensor" where
  "shuffle_pixels env latent ident =
     (case tshape latent of (B, C, H, W) \<Rightarrow>
        (case collect (map (\<lambda>b. collect (map (\<lambda>c.
                  shuffle_pixels_slice env ident C H W b c (vals latent ! b ! c)) [0..<C]))
                [0..<B]) of
           Inl e \<Rightarrow> Inl e
         | Inr v \<Rightarrow> Inr \<lparr>tshape = (B, C, H, W), vals = v\<rparr>))"

section \<open>Block shuffle\<close>

text \<open>
  A slice \<open>t[start:stop]\<close> of an axis of length \<open>n\<close>, as Python and torch read it: a
  negative bound counts from the end, and both bounds are clamped to the axis. The
  result is the first index and the number of indices (none when the stop is not after
  the start).
\<close>

definition slice_bound :: "nat \<Rightarrow> int \<Rightarrow> nat" where
  "slice_bound n i = (if i < 0 then nat (max 0 (i + int n)) else min n (nat i))"

definition py_slice :: "nat \<Rightarrow> int \<Rightarrow> int \<Rightarrow> nat \<times> nat" where
  "py_slice n start stop = (slice_bound n start, slice_bound n stop - slice_bound n start)"

text \<open>
  \<open>dst[drows, dcols] = src[srows, scols]\<close> for two-dimensional views given by their row
  and column ranges. torch copies when the shapes agree, broadcasts a source axis of
  length 1, and raises RuntimeError otherwise. The result is \<open>dst\<close> with the addressed
  block replaced.
\<close>

definition copy_block ::
    "'a list list \<Rightarrow> nat \<times> nat \<Rightarrow> nat \<times> nat \<Rightarrow> 'a list list \<Rightarrow> nat \<times> nat \<Rightarrow> nat \<times> nat
       \<Rightarrow> error + 'a list list" where
  "copy_block dst drows dcols src srows scols =
     (case drows of (dy, dh) \<Rightarrow> case dcols of (dx, dw) \<Rightarrow>
      case srows of (sy, sh) \<Rightarrow> case scols of (sx, sw) \<Rightarrow>
        if (sh = dh \<or> sh = 1) \<and> (sw = dw \<or> sw = 1)
        then Inr (map (\<lambda>i. map (\<lambda>j.
                    if dy \<le> i \<and> i < dy + dh \<and> dx \<le> j \<and> j < dx + dw
                    then src ! (sy + (if sh = 1 then 0 else i - dy))
                             ! (sx + (if sw = 1 then 0 else j - dx))
                    else dst ! i ! j)
                  [0..<length (dst ! i)])
               [0..<length dst])
        else Inl (Raised RuntimeError))"

text \<open>
  One iteration of the loop over \<open>idx\<close> in \<open>_shuffle_blocks\<close>; \<open>h\<close> and \<open>w\<close> are the
  sizes of \<open>channel\<close> and \<open>shuffled_channel\<close>. \<open>//\<close> and \<open>%\<close> round towards minus
  infinity, as \<open>div\<close> and \<open>mod\<close> on \<open>int\<close> do. \<open>block_perm[idx]\<close> raises IndexError
  past the end of the array. The destination coordinates are numpy integers: their
  product with a block size below \<open>- 2 ^ 63\<close> depends on the numpy version and is not
  modelled.
\<close>

definition block_step ::
    "int \<Rightarrow> int \<Rightarrow> nat list \<Rightarrow> nat \<Rightarrow> nat \<Rightarrow> 'a list list \<Rightarrow> 'a list list \<Rightarrow> nat
       \<Rightarrow> error + 'a list list" where
  "block_step block_size blocks_w block_perm h w channel shuffled_channel idx =
     (let src_row = int idx div blocks_w;
          src_col = int idx mod blocks_w;
          src_y = src_row * block_size;
          src_x = src_col * block_size
      in if \<not> idx < length block_perm then Inl (Raised IndexError)
         else if block_size < - (2 ^ 63) then Inl OutsideModel
         else
           (let dst_idx = int (block_perm ! idx);
                dst_row = dst_idx div blocks_w;
                dst_col = dst_idx mod blocks_w;
                dst_y = dst_row * block_size;
                dst_x = dst_col * block_size
            in copy_block shuffled_channel
                 (py_slice h dst_y (dst_y + block_size)) (py_slice w dst_x (dst_x + block_size))
                 channel
                 (py_slice h src_y (src_y + block_size)) (py_slice w src_x (src_x + block_size))))"

text \<open>The loop over \<open>idx\<close>: it stops at the first exception.\<close>

fun block_loop ::
    "('a list list \<Rightarrow> nat \<Rightarrow> error + 'a list list) \<Rightarrow> 'a list list \<Rightarrow> nat list
       \<Rightarrow> error + 'a list list" where
  "block_loop step shuffled_channel [] = Inr shuffled_channel"
| "block_loop step shuffled_channel (idx # rest) =
     (case step shuffled_channel idx of
        Inl e \<Rightarrow> Inl e
      | Inr next_channel \<Rightarrow> block_loop step next_channel rest)"

text \<open>
  The body of the loops over \<open>b\<close> and \<open>c\<close>: \<open>ch\<close> is \<open>latent[b, c]\<close> of size \<open>H\<close> by
  \<open>W\<close>, the result is \<open>shuffled[b, c]\<close> after the assignment to its top-left region
  (\<open>shuffled\<close> starts as a clone of \<open>latent\<close>).
\<close>

definition shuffle_blocks_slice ::
    "'a env \<Rightarrow> nat \<Rightarrow> nat \<Rightarrow> int \<Rightarrow> int \<Rightarrow> int \<Rightarrow> nat list \<Rightarrow> 'a list list
       \<Rightarrow> error + 'a list list" where
  "shuffle_blocks_slice env H W block_size blocks_h blocks_w block_perm ch =
     (let actual_h = blocks_h * block_size;
          actual_w = blocks_w * block_size;
          total_blocks = blocks_h * blocks_w;
          h = snd (py_slice H 0 actual_h);
          w = snd (py_slice W 0 actual_w);
          channel = map (take w) (take h ch);
          zeros_like = map (map (\<lambda>_. tzero env)) channel
      in case block_loop (block_step block_size blocks_w block_perm h w channel) zeros_like
                [0..<nat total_blocks] of
           Inl e \<Rightarrow> Inl e
         | Inr shuffled_channel \<Rightarrow>
             Inr (map (\<lambda>i. map (\<lambda>j. if i < h \<and> j < w then shuffled_channel ! i ! j
                                      else ch ! i ! j)
                           [0..<length (ch ! i)])
                  [0..<length ch]))"

text \<open>
  \<open>_shuffle_blocks\<close>. \<open>H // 0\<close> raises ZeroDivisionError. The block size is whatever
  integer the mode string carries: a negative one gives negative block counts, a positive
  number of iterations and slices with negative bounds.
\<close>

definition shuffle_blocks ::
    "'a env \<Rightarrow> 'a tensor \<Rightarrow> identity \<Rightarrow> int \<Rightarrow> error + 'a tensor" where
  "shuffle_blocks env latent ident block_size =
     (case tshape latent of (B, C, H, W) \<Rightarrow>
        if block_size = 0 then Inl (Raised ZeroDivisionError)
        else
          (let blocks_h = int H div block_size;
               blocks_w = int W div block_size
           in if blocks_h = 0 \<or> blocks_w = 0 then shuffle_pixels env latent ident
              else
                (let total_blocks = blocks_h * blocks_w
                 in case RandomState_permutation env (seed ident) (nat total_blocks) of
                      Inl e \<Rightarrow> Inl e
                    | Inr block_perm \<Rightarrow>
                        (case collect (map (\<lambda>b. collect (map (\<lambda>c.
                                  shuffle_blocks_slice env H W block_size blocks_h blocks_w
                                    block_perm (vals latent ! b ! c)) [0..<C]))
                                [0..<B]) of
                           Inl e \<Rightarrow> Inl e
                         | Inr v \<Rightarrow> Inr \<lparr>tshape = (B, C, H, W), vals = v\<rparr>))))"

section \<open>Shuffle dispatch\<close>

text \<open>\<open>str.split(sep)\<close> for a one-character separator.\<close>

fun split_on :: "char \<Rightarrow> string \<Rightarrow> string list" where
  "split_on d [] = [[]]"
| "split_on d (c # cs) =
     (if c = d then [] # split_on d cs
      else (case split_on d cs of p # ps \<Rightarrow> (c # p) # ps | [] \<Rightarrow> [[c]]))"

text \<open>
  \<open>int(s)\<close> for a string of code points below 256 without underscores (the field comes
  from a split at "_"). CPython drops the whitespace around the number: the characters 9
  to 13 and 32, and, of the code points from 127 on, U+0085 and U+00A0, which it first
  rewrites to a blank. One sign is allowed, at least one decimal digit must follow and
  nothing else; more than 4300 digits are refused (the default
  \<open>sys.int_max_str_digits\<close>). Every failure is a ValueError.
\<close>

definition is_space :: "char \<Rightarrow> bool" where
  "is_space c = (let n = (of_char c :: nat)
                 in (9 \<le> n \<and> n \<le> 13) \<or> n = 32 \<or> n = 133 \<or> n = 160)"

definition is_digit :: "char \<Rightarrow> bool" where
  "is_digit c = (let n = (of_char c :: nat) in 48 \<le> n \<and> n \<le> 57)"

definition digits_value :: "string \<Rightarrow> nat" where
  "digits_value ds = foldl (\<lambda>acc c. acc * 10 + (of_char c - 48)) 0 ds"

definition py_int :: "string \<Rightarrow> error + int" where
  "py_int s =
     (let t = dropWhile is_space s;
          neg = (t \<noteq> [] \<and> hd t = CHR ''-'');
          body = (if t \<noteq> [] \<and> (hd t = CHR ''-'' \<or> hd t = CHR ''+'') then tl t else t);
          digits = takeWhile is_digit body;
          rest = dropWhile is_space (dropWhile is_digit body)
      in if digits \<noteq> [] \<and> rest = [] \<and> length digits \<le> 4300
         then Inr (if neg then - int (digits_value digits) else int (digits_value digits))
         else Inl (Raised ValueError))"

text \<open>\<open>_shuffle_latent\<close>: \<open>shuffle_mode.split("_")[1]\<close> raises IndexError without a second field.\<close>

definition shuffle_latent ::
    "'a env \<Rightarrow> 'a tensor \<Rightarrow> identity \<Rightarrow> string \<Rightarrow> error + 'a tensor" where
  "shuffle_latent env latent ident shuffle_mode =
     (if shuffle_mode = ''pixel'' then shuffle_pixels env latent ident
      else
        (case split_on CHR ''_'' shuffle_mode of
           _ # field # _ \<Rightarrow>
             (case py_int field of
                Inl e \<Rightarrow> Inl e
              | Inr block_size \<Rightarrow> shuffle_blocks env latent ident block_size)
         | _ \<Rightarrow> Inl (Raised IndexError)))"

section \<open>The signing stage of sample\<close>

text \<open>The host's generation parameters, passed through to the provenance record.\<close>

record gen_params =
  gen_seed :: nat
  steps :: nat
  cfg :: real
  sampler_name :: string
  scheduler :: string

text \<open>
  The dict of \<open>_build_verification_info\<close>: the fields that depend on the call (the
  constant notes, the verification method texts and the legal notice are left out).
\<close>

record verification =
  v_version :: string
  v_system :: string
  v_timestamp :: real
  v_key_hash :: string
  v_signature :: string
  v_blend_strength :: real
  v_shuffle_mode :: string
  v_latent_shape :: "nat list"
  v_crypto_seed :: nat
  v_generation :: gen_params

definition build_verification_info ::
    "identity \<Rightarrow> real \<Rightarrow> string \<Rightarrow> nat \<times> nat \<times> nat \<times> nat \<Rightarrow> gen_params \<Rightarrow> verification" where
  "build_verification_info ident blend shuffle_mode latent_shape gp =
     (case latent_shape of (B, C, H, W) \<Rightarrow>
        \<lparr>v_version = ''1.0.0'', v_system = ''CryptoNoise_KSampler'',
         v_timestamp = timestamp ident, v_key_hash = key_hash ident,
         v_signature = ''CN-'' @ take 16 (key_hash ident),
         v_blend_strength = blend, v_shuffle_mode = shuffle_mode,
         v_latent_shape = [B, C, H, W], v_crypto_seed = seed ident,
         v_generation = gp\<rparr>)"

text \<open>
  The float literals of the source as the reals they denote: \<open>0.01\<close> is the double
  \<open>5764607523034235 / 2 ^ 59\<close>, \<open>1.0\<close> is exact. \<open>crypto_blend\<close> is a finite double,
  read as a real.
\<close>

definition blend_threshold :: real where
  "blend_threshold = 5764607523034235 / 2 ^ 59"

text \<open>
  Lines 252 to 255: \<open>samples * (1.0 - crypto_blend) + crypto_noise * crypto_blend\<close>,
  element by element, or the noise tensor itself.
\<close>

definition blend_samples :: "'a env \<Rightarrow> real \<Rightarrow> 'a tensor \<Rightarrow> 'a tensor \<Rightarrow> 'a tensor" where
  "blend_samples env crypto_blend samples crypto_noise =
     (if crypto_blend < 1 then
        \<lparr>tshape = tshape samples,
         vals = map2 (map2 (map2 (map2 (\<lambda>x n.
                  tadd env (tmul env x (1 - crypto_blend)) (tmul env n crypto_blend)))))
                  (vals samples) (vals crypto_noise)\<rparr>
      else crypto_noise)"

text \<open>
  What STEP 1 of \<open>sample\<close> leaves in \<open>signed_latent\<close>, \<open>signature\<close> and
  \<open>verification_info\<close> (\<open>None\<close> is the empty dict, serialised as "{}").
\<close>

record 'a signed =
  signed_latent :: "'a tensor"
  signature :: string
  verification_info :: "verification option"

text \<open>The \<open>try\<close> block of \<open>sample\<close>, lines 223 to 276.\<close>

definition try_block ::
    "'a env \<Rightarrow> 'a tensor \<Rightarrow> gen_params \<Rightarrow> identity \<Rightarrow> real \<Rightarrow> string
       \<Rightarrow> error + ('a tensor \<times> verification)" where
  "try_block env samples gp ident crypto_blend shuffle_mode =
     (case randn env (seed ident) (tshape samples) of
        Inl e \<Rightarrow> Inl (Raised e)
      | Inr crypto_base \<Rightarrow>
          (case shuffle_latent env crypto_base ident shuffle_mode of
             Inl e \<Rightarrow> Inl e
           | Inr crypto_noise \<Rightarrow>
               Inr (blend_samples env crypto_blend samples crypto_noise,
                    build_verification_info ident crypto_blend shuffle_mode (tshape samples) gp)))"

text \<open>
  STEP 1 of \<open>sample\<close> (lines 197 to 286); STEP 2 hands \<open>signed_latent\<close> to the host's
  sampler. \<open>latent_image\<close> is its \<open>"samples"\<close> tensor. The identity is derived before
  the \<open>try\<close>, so an exception there leaves \<open>sample\<close>; \<open>except Exception\<close> turns every
  exception of the \<open>try\<close> block into the fallback. Logging is left out.
\<close>

definition sample ::
    "'a env \<Rightarrow> real \<Rightarrow> 'a tensor \<Rightarrow> gen_params \<Rightarrow> pystr \<Rightarrow> real \<Rightarrow> string
       \<Rightarrow> error + 'a signed" where
  "sample env now latent_image gp artist_key crypto_blend shuffle_mode =
     (if crypto_blend > blend_threshold then
        (case derive_crypto_identity now artist_key (tshape latent_image) of
           Inl e \<Rightarrow> Inl e
         | Inr ident \<Rightarrow>
             (case try_block env latent_image gp ident crypto_blend shuffle_mode of
                Inr (blended_samples, info) \<Rightarrow>
                  Inr \<lparr>signed_latent = blended_samples, signature = signature_of ident,
                       verification_info = Some info\<rparr>
              | Inl OutsideModel \<Rightarrow> Inl OutsideModel
              | Inl (Raised e) \<Rightarrow>
                  Inr \<lparr>signed_latent = latent_image, signature = ''error'',
                       verification_info = None\<rparr>))
      else Inr \<lparr>signed_latent = latent_image, signature = ''unsigned'',
                 verification_info = None\<rparr>)"

section \<open>Concrete inputs\<close>

text \<open>
  Inputs to run the model on. \<open>demo_env\<close> computes with reals; its noise tensor holds at each
  position the position's row-major number, and its draw is \<open>[1, ..., n - 1, 0]\<close>, one of
  the permutations a generator can return. \<open>cuda_env\<close> is a host whose latent lives on
  another device than the generator: \<open>torch.randn\<close> raises RuntimeError there.
\<close>

definition iota_tensor :: "nat \<times> nat \<times> nat \<times> nat \<Rightarrow> real tensor" where
  "iota_tensor shp =
     (case shp of (B, C, H, W) \<Rightarrow>
        \<lparr>tshape = shp,
         vals = map (\<lambda>b. map (\<lambda>c. map (\<lambda>y. map (\<lambda>x.
                  real (((b * C + c) * H + y) * W + x)) [0..<W]) [0..<H]) [0..<C]) [0..<B]\<rparr>)"

definition demo_env :: "real env" where
  "demo_env = \<lparr>randn = (\<lambda>sd shp. Inr (iota_tensor shp)),
               permutation = (\<lambda>sd n. rotate1 [0..<n]),
               tzero = 0, tmul = (\<lambda>x r. x * r), tadd = (\<lambda>x y. x + y)\<rparr>"

definition cuda_env :: "real env" where
  "cuda_env = demo_env\<lparr>randn := (\<lambda>sd shp. Inl RuntimeError)\<rparr>"

definition demo_gp :: gen_params where
  "demo_gp = \<lparr>gen_seed = 0, steps = 20, cfg = 8, sampler_name = ''euler'',
              scheduler = ''normal''\<rparr>"

definition alice :: pystr where
  "alice = str_of ''alice''"

text \<open>The digest of "alice", as \<open>hashlib\<close> prints it.\<close>

definition alice_digest :: bytes where
  "alice_digest = [0x2b, 0xd8, 0x06, 0xc9, 0x7f, 0x0e, 0x00, 0xaf, 0x1a, 0x1f, 0xc3, 0x32,
     0x8f, 0xa7, 0x63, 0xa9, 0x26, 0x97, 0x23, 0xc8, 0xdb, 0x8f, 0xac, 0x4f, 0x93, 0xaf,
     0x71, 0xdb, 0x18, 0x6d, 0x6e, 0x90]"

section \<open>Facts about the embedding\<close>

lemma encode_utf8_ascii:
  "\<forall>c \<in> set s. c < 128 \<Longrightarrow> encode_utf8 s = Inr s"
  by (induction s) (auto simp: utf8_char_def)

subsection \<open>The digest of "alice"\<close>

lemma chunks_rec:
  "chunks n k xs = (if n = 0 then [] else take k xs # chunks (n - 1) k (drop k xs))"
  by (cases n) auto

lemma be_bytes_rec:
  "be_bytes n v = (if n = 0 then [] else (v div 256 ^ (n - 1)) mod 256 # be_bytes (n - 1) v)"
  by (cases n) auto

lemma replicate_rec: "replicate n x = (if n = 0 then [] else x # replicate (n - 1) x)"
  by (cases n) auto

lemma encode_alice: "encode_utf8 alice = Inr [97, 108, 105, 99, 101]"
  by (simp add: alice_def str_of_def utf8_char_def)

lemma sha_pad_alice:
  "sha_pad [97, 108, 105, 99, 101] =
     [97, 108, 105, 99, 101, 128, 0, 0, 0, 0, 0, 0, 0, 0, 0, 0, 0, 0, 0, 0, 0, 0, 0, 0, 0,
      0, 0, 0, 0, 0, 0, 0, 0, 0, 0, 0, 0, 0, 0, 0, 0, 0, 0, 0, 0, 0, 0, 0, 0, 0, 0, 0, 0,
      0, 0, 0, 0, 0, 0, 0, 0, 0, 0, 40]"
  by (simp add: sha_pad_def be_bytes_rec replicate_rec)

lemma sha_words_alice:
  "map sha_words (chunks (length (sha_pad [97, 108, 105, 99, 101]) div 64) 64
        (sha_pad [97, 108, 105, 99, 101]))
     = [[0x616c6963, 0x65800000, 0, 0, 0, 0, 0, 0, 0, 0, 0, 0, 0, 0, 0, 40]]"
  unfolding sha_pad_alice
  by (simp add: sha_words_def from_bytes_big_def chunks_rec)

lemma compress_alice:
  "compress H256 [0x616c6963, 0x65800000, 0, 0, 0, 0, 0, 0, 0, 0, 0, 0, 0, 0, 0, 40] =
     [0x2bd806c9, 0x7f0e00af, 0x1a1fc332, 0x8fa763a9,
      0x269723c8, 0xdb8fac4f, 0x93af71db, 0x186d6e90]"
  by (simp add: compress_def H256_def K256_def add32_def ssig0_def ssig1_def bsig0_def
        bsig1_def Ch_def Maj_def rotr_def Let_def)

lemma sha256_alice: "sha256 [97, 108, 105, 99, 101] = alice_digest"
  unfolding sha256_def Let_def sha_words_alice
  by (simp add: compress_alice be_bytes_rec alice_digest_def)

lemma hex_alice:
  "hex alice_digest = ''2bd806c97f0e00af1a1fc3328fa763a9269723c8db8fac4f93af71db186d6e90''"
  by (simp add: hex_def hex_digit_def alice_digest_def)

lemma seed_alice: "from_bytes_big (take 8 alice_digest) mod 4294967296 = 2131624111"
  by (simp add: from_bytes_big_def alice_digest_def)

lemma derive_alice:
  "derive_crypto_identity now alice shp =
     Inr \<lparr>key_hash = ''2bd806c97f0e00af1a1fc3328fa763a9269723c8db8fac4f93af71db186d6e90'',
          seed = 2131624111, artist_key_length = 5, shape = shp, timestamp = now\<rparr>"
  by (simp add: derive_crypto_identity_def encode_alice sha256_alice hex_alice seed_alice
        Let_def)
     (simp add: alice_def str_of_def)

text \<open>Every derived seed is one numpy accepts.\<close>

lemma derived_seed_bound:
  "derive_crypto_identity now artist_key shp = Inr ident \<Longrightarrow> seed ident < 2 ^ 32"
  by (auto simp: derive_crypto_identity_def Let_def split: sum.splits)

section \<open>Facts about the block shuffle\<close>

text \<open>
  For a positive block size and a drawn permutation of the block indices, every slice
  bound of the loop lies inside the channel, every copy is between two S-by-S blocks, and
  the loop ends without an exception.
\<close>

lemma wf_channel_iff:
  "wf_channel H W ch \<longleftrightarrow> length ch = H \<and> (\<forall>i<H. length (ch ! i) = W)"
  by (auto simp: wf_channel_def all_set_conv_all_nth)

lemma py_slice_block:
  assumes "a + S \<le> n"
  shows "py_slice n (int a) (int a + int S) = (a, S)"
  using assms by (simp add: py_slice_def slice_bound_def min_def flip: of_nat_add)

lemma copy_block_square:
  assumes "copy_block dst (dy, S) (dx, S) src (sy, S) (sx, S) = r"
  shows "\<exists>out. r = Inr out \<and> length out = length dst
           \<and> (\<forall>i<length dst. length (out ! i) = length (dst ! i)
                \<and> (\<forall>j<length (dst ! i). out ! i ! j
                      = (if dy \<le> i \<and> i < dy + S \<and> dx \<le> j \<and> j < dx + S
                         then src ! (sy + (i - dy)) ! (sx + (j - dx)) else dst ! i ! j)))"
  using assms by (auto simp: copy_block_def less_Suc_eq)

lemma block_coord_unique:
  fixes a b d S :: nat
  assumes "d < S" "a * S \<le> b * S + d" "b * S + d < a * S + S"
  shows "a = b"
proof -
  have "a * S < (b + 1) * S" using assms(1,2) by simp
  then have 1: "a < b + 1" by (simp only: mult_less_cancel2)
  have "b * S < (a + 1) * S" using assms(3) by simp
  then have 2: "b < a + 1" by (simp only: mult_less_cancel2)
  from 1 2 show ?thesis by simp
qed

lemma block_index_bound:
  fixes k bh bw S d :: nat
  assumes "k < bh * bw" "d < S"
  shows "(k div bw) * S + d < bh * S" "(k mod bw) * S + d < bw * S"
proof -
  have bw: "0 < bw" using assms(1) by (cases bw) simp_all
  have "k div bw < bh" using assms(1) bw by (simp add: less_mult_imp_div_less)
  then have "(k div bw + 1) * S \<le> bh * S" by (simp only: mult_le_mono1 Suc_leI Suc_eq_plus1 [symmetric])
  then show "(k div bw) * S + d < bh * S" using assms(2) by simp
  have "k mod bw < bw" using bw by simp
  then have "(k mod bw + 1) * S \<le> bw * S" by (simp only: mult_le_mono1 Suc_leI Suc_eq_plus1 [symmetric])
  then show "(k mod bw) * S + d < bw * S" using assms(2) by simp
qed

lemma block_fits:
  fixes k bh bw S :: nat
  assumes "k < bh * bw" "0 < S"
  shows "(k div bw) * S + S \<le> bh * S" "(k mod bw) * S + S \<le> bw * S"
  using block_index_bound [OF assms(1), of "S - 1" S] assms(2) by simp_all

lemma block_step_square:
  assumes "0 < S" "idx < length block_perm" "idx < bh * bw" "block_perm ! idx < bh * bw"
  shows "block_step (int S) (int bw) block_perm (bh * S) (bw * S) channel st idx
           = copy_block st ((block_perm ! idx div bw) * S, S) ((block_perm ! idx mod bw) * S, S)
               channel ((idx div bw) * S, S) ((idx mod bw) * S, S)"
proof -
  note f1 = block_fits [OF assms(3) assms(1)]
  note f2 = block_fits [OF assms(4) assms(1)]
  have s1: "py_slice (bh * S) (int (idx div bw) * int S) (int (idx div bw) * int S + int S)
              = ((idx div bw) * S, S)"
    using py_slice_block [OF f1(1)] by simp
  have s2: "py_slice (bw * S) (int (idx mod bw) * int S) (int (idx mod bw) * int S + int S)
              = ((idx mod bw) * S, S)"
    using py_slice_block [OF f1(2)] by simp
  have s3: "py_slice (bh * S) (int (block_perm ! idx div bw) * int S)
              (int (block_perm ! idx div bw) * int S + int S) = ((block_perm ! idx div bw) * S, S)"
    using py_slice_block [OF f2(1)] by simp
  have s4: "py_slice (bw * S) (int (block_perm ! idx mod bw) * int S)
              (int (block_perm ! idx mod bw) * int S + int S) = ((block_perm ! idx mod bw) * S, S)"
    using py_slice_block [OF f2(2)] by simp
  have neg: "\<not> int S < - (2 ^ 63)"
  proof -
    have "(0::int) \<le> int S" by simp
    moreover have "- (2 ^ 63) < (0::int)" by simp
    ultimately show ?thesis by linarith
  qed
  show ?thesis
    using assms(2) neg
    apply (simp only: block_step_def Let_def zdiv_int [symmetric] zmod_int [symmetric] s1 s2 s3 s4
          not_not if_True if_False)
    apply simp
    done
qed

lemma block_loop_snoc:
  "block_loop step s (xs @ [x])
     = (case block_loop step s xs of Inl e \<Rightarrow> Inl e | Inr s' \<Rightarrow> step s' x)"
  by (induction xs arbitrary: s) (simp_all split: sum.splits)


lemma block_loop_scatter:
  assumes S: "0 < S"
    and len: "length block_perm = bh * bw"
    and dist: "distinct block_perm"
    and rng: "\<forall>k \<in> set block_perm. k < bh * bw"
    and z: "wf_channel (bh * S) (bw * S) z"
    and n: "n \<le> bh * bw"
  shows "\<exists>st. block_loop (block_step (int S) (int bw) block_perm (bh * S) (bw * S) channel) z
                 [0..<n] = Inr st
           \<and> wf_channel (bh * S) (bw * S) st
           \<and> (\<forall>idx<n. \<forall>dy<S. \<forall>dx<S.
                st ! ((block_perm ! idx div bw) * S + dy) ! ((block_perm ! idx mod bw) * S + dx)
                  = channel ! ((idx div bw) * S + dy) ! ((idx mod bw) * S + dx))"
  using n
proof (induction n)
  case 0
  show ?case using z by simp
next
  case (Suc n)
  let ?step = "block_step (int S) (int bw) block_perm (bh * S) (bw * S) channel"
  from Suc obtain st where st: "block_loop ?step z [0..<n] = Inr st"
    and wf: "wf_channel (bh * S) (bw * S) st"
    and ih: "\<forall>idx<n. \<forall>dy<S. \<forall>dx<S.
                st ! ((block_perm ! idx div bw) * S + dy) ! ((block_perm ! idx mod bw) * S + dx)
                  = channel ! ((idx div bw) * S + dy) ! ((idx mod bw) * S + dx)"
    by auto
  let ?k = "block_perm ! n"
  have nlt: "n < bh * bw" using Suc.prems by simp
  have nlen: "n < length block_perm" using nlt len by simp
  have kn: "?k < bh * bw" using rng nlen by simp
  from copy_block_square [OF refl, of st "(?k div bw) * S" S "(?k mod bw) * S" channel
      "(n div bw) * S" "(n mod bw) * S"]
  obtain out where cb: "copy_block st ((?k div bw) * S, S) ((?k mod bw) * S, S) channel
        ((n div bw) * S, S) ((n mod bw) * S, S) = Inr out"
    and lo: "length out = length st"
    and el: "\<forall>i<length st. length (out ! i) = length (st ! i)
                \<and> (\<forall>j<length (st ! i). out ! i ! j
                      = (if (?k div bw) * S \<le> i \<and> i < (?k div bw) * S + S
                            \<and> (?k mod bw) * S \<le> j \<and> j < (?k mod bw) * S + S
                         then channel ! ((n div bw) * S + (i - (?k div bw) * S))
                                ! ((n mod bw) * S + (j - (?k mod bw) * S))
                         else st ! i ! j))"
    by blast
  have step: "?step st n = Inr out"
    by (simp only: block_step_square [OF S nlen nlt kn] cb)
  have loop: "block_loop ?step z [0..<Suc n] = Inr out"
    by (simp add: block_loop_snoc st step)
  have wfst: "length st = bh * S" "\<And>i. i < bh * S \<Longrightarrow> length (st ! i) = bw * S"
    using wf by (simp_all add: wf_channel_iff)
  have wfo: "wf_channel (bh * S) (bw * S) out"
    using lo el wfst by (simp add: wf_channel_iff)
  have "out ! ((block_perm ! idx div bw) * S + dy) ! ((block_perm ! idx mod bw) * S + dx)
          = channel ! ((idx div bw) * S + dy) ! ((idx mod bw) * S + dx)"
    if idx: "idx < Suc n" and dy: "dy < S" and dx: "dx < S" for idx dy dx
  proof -
    let ?p = "block_perm ! idx"
    let ?i = "(?p div bw) * S + dy"
    let ?j = "(?p mod bw) * S + dx"
    have ilen: "idx < length block_perm" using idx nlen by simp
    have pk: "?p < bh * bw" using rng ilen by simp
    have i: "?i < bh * S" and j: "?j < bw * S"
      using block_index_bound [OF pk dy] block_index_bound [OF pk dx] by simp_all
    have val: "out ! ?i ! ?j
        = (if (?k div bw) * S \<le> ?i \<and> ?i < (?k div bw) * S + S
              \<and> (?k mod bw) * S \<le> ?j \<and> ?j < (?k mod bw) * S + S
           then channel ! ((n div bw) * S + (?i - (?k div bw) * S))
                  ! ((n mod bw) * S + (?j - (?k mod bw) * S))
           else st ! ?i ! ?j)"
      using el i j wfst by simp
    show ?thesis
    proof (cases "idx = n")
      case True
      then show ?thesis using val dy dx by simp
    next
      case False
      then have lt: "idx < n" using idx by simp
      have ne: "?p \<noteq> ?k"
        using dist ilen nlen False by (simp add: nth_eq_iff_index_eq)
      have "\<not> ((?k div bw) * S \<le> ?i \<and> ?i < (?k div bw) * S + S
              \<and> (?k mod bw) * S \<le> ?j \<and> ?j < (?k mod bw) * S + S)"
      proof
        assume a: "(?k div bw) * S \<le> ?i \<and> ?i < (?k div bw) * S + S
              \<and> (?k mod bw) * S \<le> ?j \<and> ?j < (?k mod bw) * S + S"
        have d: "?k div bw = ?p div bw" using block_coord_unique [OF dy] a by blast
        have m: "?k mod bw = ?p mod bw" using block_coord_unique [OF dx] a by blast
        have "?k = ?p" using d m by (metis div_mult_mod_eq)
        with ne show False by simp
      qed
      with val have "out ! ?i ! ?j = st ! ?i ! ?j" by simp
      with ih lt dy dx show ?thesis by simp
    qed
  qed
  with loop wfo show ?case by blast
qed


lemma py_slice_prefix:
  assumes "a * S \<le> n"
  shows "snd (py_slice n 0 (int a * int S)) = a * S"
  using assms by (simp add: py_slice_def slice_bound_def min_def flip: of_nat_mult)

lemma shuffle_blocks_slice_scatter:
  assumes S: "0 < S" and bh: "bh = H div S" and bw: "bw = W div S"
    and len: "length block_perm = bh * bw"
    and dist: "distinct block_perm"
    and rng: "\<forall>k \<in> set block_perm. k < bh * bw"
    and wf: "wf_channel H W ch"
  shows "\<exists>out. shuffle_blocks_slice env H W (int S) (int bh) (int bw) block_perm ch = Inr out
           \<and> wf_channel H W out
           \<and> (\<forall>idx<bh * bw. \<forall>dy<S. \<forall>dx<S.
                out ! ((block_perm ! idx div bw) * S + dy) ! ((block_perm ! idx mod bw) * S + dx)
                  = ch ! ((idx div bw) * S + dy) ! ((idx mod bw) * S + dx))
           \<and> (\<forall>i<H. \<forall>j<W. \<not> (i < bh * S \<and> j < bw * S) \<longrightarrow> out ! i ! j = ch ! i ! j)"
proof -
  let ?h = "bh * S" and ?w = "bw * S"
  have hH: "?h \<le> H" and wW: "?w \<le> W" using bh bw by simp_all
  let ?channel = "map (take ?w) (take ?h ch)"
  let ?zeros = "map (map (\<lambda>_. tzero env)) ?channel"
  have chH: "length ch = H" and chW: "\<And>i. i < H \<Longrightarrow> length (ch ! i) = W"
    using wf by (simp_all add: wf_channel_iff)
  have wfc: "wf_channel ?h ?w ?channel"
    using hH wW chH chW by (simp add: wf_channel_iff)
  have wfz: "wf_channel ?h ?w ?zeros"
    using hH wW chH chW by (simp add: wf_channel_iff)
  have cel: "?channel ! i ! j = ch ! i ! j" if "i < ?h" "j < ?w" for i j
    using that hH chH by simp
  from block_loop_scatter [OF S len dist rng wfz le_refl, of ?channel]
  obtain st where loop: "block_loop (block_step (int S) (int bw) block_perm ?h ?w ?channel) ?zeros
                 [0..<bh * bw] = Inr st"
    and wfs: "wf_channel ?h ?w st"
    and blk: "\<forall>idx<bh * bw. \<forall>dy<S. \<forall>dx<S.
                st ! ((block_perm ! idx div bw) * S + dy) ! ((block_perm ! idx mod bw) * S + dx)
                  = ?channel ! ((idx div bw) * S + dy) ! ((idx mod bw) * S + dx)"
    by blast
  let ?out = "map (\<lambda>i. map (\<lambda>j. if i < ?h \<and> j < ?w then st ! i ! j else ch ! i ! j)
                           [0..<length (ch ! i)]) [0..<length ch]"
  have tot: "nat (int bh * int bw) = bh * bw" by (simp flip: of_nat_mult)
  have run: "shuffle_blocks_slice env H W (int S) (int bh) (int bw) block_perm ch = Inr ?out"
    unfolding shuffle_blocks_slice_def Let_def py_slice_prefix [OF hH] py_slice_prefix [OF wW]
      tot loop
    by simp
  have wfo: "wf_channel H W ?out" using chH chW by (simp add: wf_channel_iff)
  have oel: "?out ! i ! j = (if i < ?h \<and> j < ?w then st ! i ! j else ch ! i ! j)"
    if "i < H" "j < W" for i j
    using that chH chW by simp
  have b: "?out ! ((block_perm ! idx div bw) * S + dy) ! ((block_perm ! idx mod bw) * S + dx)
              = ch ! ((idx div bw) * S + dy) ! ((idx mod bw) * S + dx)"
    if idx: "idx < bh * bw" and dy: "dy < S" and dx: "dx < S" for idx dy dx
  proof -
    have pk: "block_perm ! idx < bh * bw" using rng idx len by simp
    note d = block_index_bound [OF pk dy] block_index_bound [OF pk dx]
    note s = block_index_bound [OF idx dy] block_index_bound [OF idx dx]
    have "?out ! ((block_perm ! idx div bw) * S + dy) ! ((block_perm ! idx mod bw) * S + dx)
            = st ! ((block_perm ! idx div bw) * S + dy) ! ((block_perm ! idx mod bw) * S + dx)"
      using oel [of "(block_perm ! idx div bw) * S + dy" "(block_perm ! idx mod bw) * S + dx"]
        d(1,4) hH wW by simp
    also have "\<dots> = ?channel ! ((idx div bw) * S + dy) ! ((idx mod bw) * S + dx)"
      using blk idx dy dx by simp
    also have "\<dots> = ch ! ((idx div bw) * S + dy) ! ((idx mod bw) * S + dx)"
      using cel s(1,4) by simp
    finally show ?thesis .
  qed
  from run wfo b oel show ?thesis by (intro exI [of _ ?out]) simp
qed


lemma collect_all_Inr:
  assumes "\<forall>x \<in> set xs. f x = Inr (g x)"
  shows "collect (map f xs) = Inr (map g xs)"
  using assms by (induction xs) simp_all

lemma perm_of_range:
  assumes "mset p = mset [0..<n]"
  shows "length p = n" "distinct p" "\<forall>k \<in> set p. k < n"
proof -
  show "length p = n" using assms by (metis length_upt mset_eq_length minus_nat.diff_0)
  show "distinct p" using assms by (metis distinct_upt mset_eq_imp_distinct_iff)
  show "\<forall>k \<in> set p. k < n" using assms by (metis atLeastLessThan_iff mset_eq_setD set_upt)
qed

lemma wf_tensor_nth:
  assumes "wf_tensor t" "tshape t = (B, C, H, W)" "b < B" "c < C"
  shows "length (vals t) = B" "length (vals t ! b) = C" "wf_channel H W (vals t ! b ! c)"
proof -
  show B: "length (vals t) = B" using assms by (simp add: wf_tensor_def)
  have "vals t ! b \<in> set (vals t)" using B assms(3) by simp
  then have img: "length (vals t ! b) = C \<and> (\<forall>ch \<in> set (vals t ! b). wf_channel H W ch)"
    using assms(1,2) by (simp add: wf_tensor_def)
  then show "length (vals t ! b) = C" by simp
  have "vals t ! b ! c \<in> set (vals t ! b)" using img assms(4) by simp
  with img show "wf_channel H W (vals t ! b ! c)" by blast
qed

lemma wf_tensor_iff:
  "wf_tensor \<lparr>tshape = (B, C, H, W), vals = v\<rparr>
     \<longleftrightarrow> length v = B \<and> (\<forall>b<B. length (v ! b) = C \<and> (\<forall>c<C. wf_channel H W (v ! b ! c)))"
  by (auto simp: wf_tensor_def all_set_conv_all_nth)

lemma shuffle_blocks_scatter:
  assumes wf: "wf_tensor latent" and shp: "tshape latent = (B, C, H, W)"
    and S: "0 < S" "S \<le> H" "S \<le> W"
    and sd: "seed ident < 2 ^ 32"
    and perm: "mset (permutation env (seed ident) ((H div S) * (W div S)))
                 = mset [0..<(H div S) * (W div S)]"
  shows "\<exists>out. shuffle_blocks env latent ident (int S) = Inr out
           \<and> tshape out = (B, C, H, W) \<and> wf_tensor out
           \<and> (\<forall>b<B. \<forall>c<C.
                shuffle_blocks_slice env H W (int S) (int (H div S)) (int (W div S))
                  (permutation env (seed ident) ((H div S) * (W div S))) (vals latent ! b ! c)
                  = Inr (vals out ! b ! c))"
proof -
  let ?bh = "H div S" and ?bw = "W div S"
  let ?p = "permutation env (seed ident) (?bh * ?bw)"
  let ?sl = "\<lambda>ch. shuffle_blocks_slice env H W (int S) (int ?bh) (int ?bw) ?p ch"
  let ?v = "map (\<lambda>b. map (\<lambda>c. projr (?sl (vals latent ! b ! c))) [0..<C]) [0..<B]"
  note p = perm_of_range [OF perm]
  have bh: "0 < ?bh" and bw: "0 < ?bw" using S by (simp_all add: div_greater_zero_iff)
  have sl: "?sl (vals latent ! b ! c) = Inr (projr (?sl (vals latent ! b ! c)))
            \<and> wf_channel H W (projr (?sl (vals latent ! b ! c)))"
    if "b < B" "c < C" for b c
    using shuffle_blocks_slice_scatter [OF S(1) refl refl p wf_tensor_nth(3) [OF wf shp that],
        of env]
    by auto
  have inner: "collect (map (\<lambda>c. ?sl (vals latent ! b ! c)) [0..<C])
                 = Inr (map (\<lambda>c. projr (?sl (vals latent ! b ! c))) [0..<C])"
    if "b < B" for b
    using sl [OF that] by (intro collect_all_Inr) simp
  have outer: "collect (map (\<lambda>b. collect (map (\<lambda>c. ?sl (vals latent ! b ! c)) [0..<C])) [0..<B])
                 = Inr ?v"
    using inner by (intro collect_all_Inr) simp
  have d: "int H div int S = int ?bh" "int W div int S = int ?bw"
    by (simp_all add: zdiv_int)
  have nz: "int ?bh \<noteq> 0" "int ?bw \<noteq> 0" "int S \<noteq> 0" using bh bw S(1) by simp_all
  have tot: "nat (int ?bh * int ?bw) = ?bh * ?bw" by (simp flip: of_nat_mult)
  have run: "shuffle_blocks env latent ident (int S) = Inr \<lparr>tshape = (B, C, H, W), vals = ?v\<rparr>"
    unfolding shuffle_blocks_def shp prod.case Let_def d tot RandomState_permutation_def
    using nz sd by (simp add: outer)
  have wfo: "wf_tensor \<lparr>tshape = (B, C, H, W), vals = ?v\<rparr>"
    using sl by (simp add: wf_tensor_iff)
  have el: "?sl (vals latent ! b ! c) = Inr (?v ! b ! c)" if "b < B" "c < C" for b c
    using sl [OF that] that by simp
  from run wfo el show ?thesis
    by (intro exI [of _ "\<lparr>tshape = (B, C, H, W), vals = ?v\<rparr>"]) simp
qed








section \<open>Concrete runs of the shuffles\<close>

text \<open>
  The 1 by 1 by 2 by 2 tensor with entries 0, 1, 2, 3 under the libraries of
  \<open>demo_env\<close>, whose permutation of four indices is 1, 2, 3, 0.
\<close>

lemma upt_0_numeral: "[0..<numeral n] = 0 # [Suc 0..<numeral n]"
  by (simp add: upt_conv_Cons)

lemma upt_1_numeral:
  "[Suc 0..<numeral n] = (if Suc 0 < numeral n then Suc 0 # [2..<numeral n] else [])"
  by (simp add: upt_conv_Cons numeral_2_eq_2)

lemma tshape_iota: "tshape (iota_tensor shp) = shp"
  by (simp add: iota_tensor_def split: prod.splits)

lemma wf_iota: "wf_tensor (iota_tensor shp)"
  by (auto simp: iota_tensor_def wf_tensor_def wf_channel_def split: prod.splits)

lemma iota_2x2: "iota_tensor (1, 1, 2, 2) = \<lparr>tshape = (1, 1, 2, 2), vals = [[[[0, 1], [2, 3]]]]\<rparr>"
  by (simp add: iota_tensor_def upt_0_numeral upt_1_numeral)

lemma demo_perm: "permutation demo_env sd n = rotate1 [0..<n]"
  by (simp add: demo_env_def)

lemma mset_rotate1: "mset (rotate1 xs) = mset xs"
  by (cases xs) simp_all

lemma demo_perm_valid: "mset (permutation demo_env sd n) = mset [0..<n]"
  by (simp only: demo_perm mset_rotate1)

lemma demo_perm_4: "permutation demo_env sd 4 = [1, 2, 3, 0]"
  by (simp add: demo_env_def upt_0_numeral upt_1_numeral)

lemma list_of_two: "length xs = 2 \<Longrightarrow> xs = [xs ! 0, xs ! 1]"
  by (auto simp: length_Suc_conv numeral_2_eq_2)

lemma demo_slice_2x2:
  "shuffle_blocks_slice demo_env 2 2 1 2 2 [1, 2, 3, 0] [[0, 1], [2, 3 :: real]]
     = Inr [[3, 0], [1, 2]]"
proof -
  let ?p = "[1, 2, 3, 0 :: nat]"
  let ?ch = "[[0, 1], [2, 3 :: real]]"
  have wf: "wf_channel 2 2 ?ch" by (simp add: wf_channel_def)
  from shuffle_blocks_slice_scatter [of 1 2 2 2 2 ?p ?ch demo_env] wf
  obtain out where run: "shuffle_blocks_slice demo_env 2 2 1 2 2 ?p ?ch = Inr out"
    and wfo: "wf_channel 2 2 out"
    and blk: "\<forall>idx<4. out ! (?p ! idx div 2) ! (?p ! idx mod 2) = ?ch ! (idx div 2) ! (idx mod 2)"
    by auto
  have "out ! 0 ! 1 = 0" using blk [rule_format, of 0] by simp
  moreover have "out ! 1 ! 0 = 1" using blk [rule_format, of 1] by simp
  moreover have "out ! 1 ! 1 = 2" using blk [rule_format, of 2] by simp
  moreover have "out ! 0 ! 0 = 3" using blk [rule_format, of 3] by simp
  moreover have "out = [out ! 0, out ! 1]" "out ! 0 = [out ! 0 ! 0, out ! 0 ! 1]"
      "out ! 1 = [out ! 1 ! 0, out ! 1 ! 1]"
    using wfo list_of_two [of out] list_of_two [of "out ! 0"] list_of_two [of "out ! 1"]
    by (simp_all add: wf_channel_iff)
  ultimately have "out = [[3, 0], [1, 2]]" by simp
  with run show ?thesis by simp
qed

lemma demo_blocks_2x2:
  "seed ident < 2 ^ 32 \<Longrightarrow>
   shuffle_blocks demo_env \<lparr>tshape = (1, 1, 2, 2), vals = [[[[0, 1], [2, 3]]]]\<rparr> ident 1
     = Inr \<lparr>tshape = (1, 1, 2, 2), vals = [[[[3, 0], [1, 2]]]]\<rparr>"
  by (simp add: shuffle_blocks_def RandomState_permutation_def Let_def demo_perm_4
        demo_slice_2x2 [simplified])

lemma py_int_1: "py_int ''1'' = Inr 1"
  by (simp add: py_int_def is_space_def is_digit_def digits_value_def Let_def)

lemma demo_block_1:
  "seed ident < 2 ^ 32 \<Longrightarrow>
   shuffle_latent demo_env (iota_tensor (1, 1, 2, 2)) ident ''block_1''
     = Inr \<lparr>tshape = (1, 1, 2, 2), vals = [[[[3, 0], [1, 2]]]]\<rparr>"
  by (simp add: shuffle_latent_def py_int_1 iota_2x2 [simplified] demo_blocks_2x2 [simplified])

lemma elem_iota:
  "b < B \<Longrightarrow> c < C \<Longrightarrow> y < H \<Longrightarrow> x < W \<Longrightarrow>
   elem (iota_tensor (B, C, H, W)) b c y x = real (((b * C + c) * H + y) * W + x)"
  by (simp add: iota_tensor_def elem_def)

text \<open>
  \<open>int()\<close> drops blanks around a number but not the separators U+001C to U+001F.
\<close>

lemma py_int_file_separator: "py_int [CHR 0x1C, CHR ''1''] = Inl (Raised ValueError)"
  by (simp add: py_int_def is_space_def is_digit_def Let_def)

lemma py_int_padded: "py_int '' -8 '' = Inr (- 8)"
  by (simp add: py_int_def is_space_def is_digit_def digits_value_def Let_def)

text \<open>
  A block size of zero raises at \<open>H // block_size\<close>. A negative one larger than the
  tensor gives one iteration that copies an empty slice to an empty slice: the shuffled
  tensor is all zeros.
\<close>

lemma zero_block_size_raises:
  "shuffle_blocks env latent ident 0 = Inl (Raised ZeroDivisionError)"
  by (simp add: shuffle_blocks_def split: prod.splits)

lemma negative_block_size_zeros:
  "seed ident < 2 ^ 32 \<Longrightarrow>
   shuffle_blocks demo_env \<lparr>tshape = (1, 1, 2, 2), vals = [[[[0, 1], [2, 3]]]]\<rparr> ident (- 8)
     = Inr \<lparr>tshape = (1, 1, 2, 2), vals = [[[[0, 0], [0, 0]]]]\<rparr>"
  by (simp add: shuffle_blocks_def RandomState_permutation_def Let_def demo_perm
        shuffle_blocks_slice_def block_step_def copy_block_def py_slice_def slice_bound_def
        demo_env_def upt_0_numeral upt_1_numeral)

section \<open>Claims about identity derivation\<close>

text \<open>
  C2. For a secret string with a UTF-8 encoding, identity derivation returns as
  \<open>key_hash\<close> the hexadecimal form of the SHA-256 digest of the encoded bytes, as
  \<open>seed\<close> the digest's first 8 bytes read big-endian and reduced modulo \<open>2 ^ 32\<close>, and
  the signature label is "CN-" followed by the first 16 hexadecimal characters. For the
  key "alice" the seed is 2131624111 and the label is "CN-2bd806c97f0e00af".
\<close>
theorem identity_derivation:
  assumes "encode_utf8 artist_key = Inr encoded"
  shows "(\<exists>ident. derive_crypto_identity now artist_key shp = Inr ident
            \<and> key_hash ident = hex (sha256 encoded)
            \<and> seed ident = from_bytes_big (take 8 (sha256 encoded)) mod 2 ^ 32
            \<and> signature_of ident = ''CN-'' @ take 16 (hex (sha256 encoded)))
         \<and> (\<exists>ident. derive_crypto_identity now alice shp = Inr ident
            \<and> encode_utf8 alice = Inr [97, 108, 105, 99, 101]
            \<and> sha256 [97, 108, 105, 99, 101] = alice_digest
            \<and> seed ident = 2131624111
            \<and> key_hash ident =
                ''2bd806c97f0e00af1a1fc3328fa763a9269723c8db8fac4f93af71db186d6e90''
            \<and> signature_of ident = ''CN-2bd806c97f0e00af'')"
  using assms
  by (simp add: derive_alice encode_alice sha256_alice)
     (simp add: derive_crypto_identity_def signature_of_def Let_def)

theorem identity_derivation_witness:
  "encode_utf8 [0x62, 0xF6, 0x62] = Inr [0x62, 0xC3, 0xB6, 0x62]
   \<and> (\<exists>ident. derive_crypto_identity 0 [0x62, 0xF6, 0x62] (1, 4, 64, 64) = Inr ident
        \<and> key_hash ident = hex (sha256 [0x62, 0xC3, 0xB6, 0x62])
        \<and> seed ident = from_bytes_big (take 8 (sha256 [0x62, 0xC3, 0xB6, 0x62])) mod 2 ^ 32)"
proof -
  have enc: "encode_utf8 [0x62, 0xF6, 0x62] = Inr [0x62, 0xC3, 0xB6, 0x62]"
    by (simp add: utf8_char_def)
  from identity_derivation [OF enc, of 0 "(1, 4, 64, 64)"] enc show ?thesis
    by blast
qed

text \<open>
  C9, as stated: two derivations with the same key and shape give records equal in every
  field, the timestamp included. It fails when the clock has moved between the calls.
\<close>
theorem identity_clock_counterexample:
  "derive_crypto_identity 0 alice (1, 4, 64, 64) \<noteq> derive_crypto_identity 1 alice (1, 4, 64, 64)"
  by (simp add: derive_alice)

text \<open>
  C9, amended. Two derivations with the same key and shape agree on \<open>key_hash\<close>,
  \<open>seed\<close>, \<open>artist_key_length\<close> and \<open>shape\<close>; the timestamp of each is its own
  reading of the clock.
\<close>
theorem identity_determined_up_to_clock:
  assumes "encode_utf8 artist_key = Inr encoded"
  shows "\<exists>i1 i2. derive_crypto_identity now1 artist_key shp = Inr i1
           \<and> derive_crypto_identity now2 artist_key shp = Inr i2
           \<and> key_hash i1 = key_hash i2 \<and> seed i1 = seed i2
           \<and> artist_key_length i1 = artist_key_length i2 \<and> shape i1 = shape i2
           \<and> timestamp i1 = now1 \<and> timestamp i2 = now2"
  using assms by (simp add: derive_crypto_identity_def Let_def)

theorem identity_determined_up_to_clock_witness:
  "encode_utf8 alice = Inr [97, 108, 105, 99, 101]
   \<and> (\<exists>i1 i2. derive_crypto_identity 0 alice (1, 4, 64, 64) = Inr i1
           \<and> derive_crypto_identity 1 alice (1, 4, 64, 64) = Inr i2
           \<and> key_hash i1 = key_hash i2 \<and> seed i1 = seed i2
           \<and> artist_key_length i1 = artist_key_length i2 \<and> shape i1 = shape i2
           \<and> timestamp i1 = 0 \<and> timestamp i2 = 1)"
  using identity_determined_up_to_clock [OF encode_alice, of 0 "(1, 4, 64, 64)" 1] encode_alice
  by blast

section \<open>Claims about the signing stage\<close>

text \<open>The shuffle reads nothing of the identity but its seed.\<close>
lemma shuffle_pixels_seed_only:
  "seed i1 = seed i2 \<Longrightarrow> shuffle_pixels env t i1 = shuffle_pixels env t i2"
  by (cases "tshape t") (simp add: shuffle_pixels_def shuffle_pixels_slice_def)

lemma shuffle_blocks_seed_only:
  "seed i1 = seed i2 \<Longrightarrow> shuffle_blocks env t i1 S = shuffle_blocks env t i2 S"
  by (cases "tshape t") (simp add: shuffle_blocks_def Let_def shuffle_pixels_seed_only [of i1 i2])

lemma shuffle_latent_seed_only:
  "seed i1 = seed i2 \<Longrightarrow> shuffle_latent env t i1 m = shuffle_latent env t i2 m"
  by (simp add: shuffle_latent_def shuffle_blocks_seed_only [of i1 i2]
        shuffle_pixels_seed_only [of i1 i2] split: list.splits sum.splits)

lemma try_block_clock:
  "seed i1 = seed i2 \<Longrightarrow> key_hash i1 = key_hash i2 \<Longrightarrow>
   map_sum id fst (try_block env L gp i1 r m) = map_sum id fst (try_block env L gp i2 r m)
   \<and> map_sum id (v_key_hash \<circ> snd) (try_block env L gp i1 r m)
       = map_sum id (v_key_hash \<circ> snd) (try_block env L gp i2 r m)"
  by (cases "tshape L")
     (auto simp: try_block_def build_verification_info_def
        shuffle_latent_seed_only [of i1 i2] split: sum.splits)

text \<open>
  C1. Two invocations of the signing stage on the same latent, key, mode and ratio, with the
  same libraries and whatever the clock reads, end alike: the same exception, or the same
  latent passed on, the same signature string and the same \<open>key_hash\<close> in the provenance
  record.
\<close>
theorem signing_deterministic:
  "map_sum id (\<lambda>s. (signed_latent s, signature s, map_option v_key_hash (verification_info s)))
     (sample env now1 latent_image gp artist_key crypto_blend shuffle_mode)
   = map_sum id (\<lambda>s. (signed_latent s, signature s, map_option v_key_hash (verification_info s)))
     (sample env now2 latent_image gp artist_key crypto_blend shuffle_mode)"
proof (cases "encode_utf8 artist_key")
  case (Inl e)
  then show ?thesis by (simp add: sample_def derive_crypto_identity_def)
next
  case (Inr encoded)
  obtain i1 i2 where d: "derive_crypto_identity now1 artist_key (tshape latent_image) = Inr i1"
      "derive_crypto_identity now2 artist_key (tshape latent_image) = Inr i2"
      "key_hash i1 = key_hash i2" "seed i1 = seed i2"
    using Inr by (simp add: derive_crypto_identity_def Let_def)
  from try_block_clock [OF d(4) d(3), of env latent_image gp crypto_blend shuffle_mode]
  show ?thesis
    by (cases "try_block env latent_image gp i1 crypto_blend shuffle_mode";
        cases "try_block env latent_image gp i2 crypto_blend shuffle_mode")
       (auto simp: sample_def d signature_of_def split: error.splits)
qed

text \<open>
  C5. At a blend ratio at or below the threshold of the source (the double \<open>0.01\<close>) the
  stage passes the input latent on unchanged, the signature is "unsigned" and the
  provenance record is empty, whatever the key, the mode and the libraries (nothing is
  derived, drawn or shuffled: a key without an encoding and a failing generator do not
  matter).
\<close>
theorem short_circuit:
  "crypto_blend \<le> blend_threshold \<Longrightarrow>
   sample env now latent_image gp artist_key crypto_blend shuffle_mode =
     Inr \<lparr>signed_latent = latent_image, signature = ''unsigned'', verification_info = None\<rparr>"
  by (simp add: sample_def)

theorem short_circuit_witness:
  "(1 / 100 :: real) \<le> blend_threshold \<and>
   sample cuda_env 0 (iota_tensor (1, 1, 2, 2)) demo_gp [0xD800] (1 / 100) ''block_x'' =
     Inr \<lparr>signed_latent = iota_tensor (1, 1, 2, 2), signature = ''unsigned'',
          verification_info = None\<rparr>"
  using short_circuit [of "1 / 100" cuda_env 0 "iota_tensor (1, 1, 2, 2)" demo_gp "[0xD800]"
      "''block_x''"]
  by (simp add: blend_threshold_def)

text \<open>
  C4. The identity is derived before the \<open>try\<close> statement: for a key that holds a lone
  surrogate (JSON input can carry one) the encoding raises UnicodeEncodeError and
  \<open>sample\<close> ends with that exception instead of the fallback.
\<close>
theorem derivation_failure_propagates:
  "sample demo_env 0 (iota_tensor (1, 1, 2, 2)) demo_gp [0xD800] (1 / 2) ''block_8''
     = Inl (Raised UnicodeEncodeError)"
  by (simp add: sample_def derive_crypto_identity_def utf8_char_def blend_threshold_def)

text \<open>What the handler does catch: every exception raised inside the \<open>try\<close> block.\<close>
lemma try_block_failure_caught:
  assumes "blend_threshold < crypto_blend"
    and "derive_crypto_identity now artist_key (tshape latent_image) = Inr ident"
    and "try_block env latent_image gp ident crypto_blend shuffle_mode = Inl (Raised e)"
  shows "sample env now latent_image gp artist_key crypto_blend shuffle_mode
           = Inr \<lparr>signed_latent = latent_image, signature = ''error'', verification_info = None\<rparr>"
  using assms by (simp add: sample_def)

text \<open>
  C10, as stated: every mode string that is neither "pixel" nor "block_" followed by a
  decimal integer ends in the fallback. "foo_8" is such a string, and the stage signs with
  block size 8: only the second field is read.
\<close>
theorem off_menu_mode_signs:
  "map_sum id signature
     (sample demo_env 0 (iota_tensor (1, 1, 8, 8)) demo_gp alice (1 / 2) ''foo_8'')
     = Inr ''CN-2bd806c97f0e00af''"
proof -
  let ?I = "\<lparr>key_hash = ''2bd806c97f0e00af1a1fc3328fa763a9269723c8db8fac4f93af71db186d6e90'',
             seed = 2131624111, artist_key_length = 5, shape = (1, 1, 8, 8),
             timestamp = 0 :: real\<rparr>"
  let ?L = "iota_tensor (1, 1, 8, 8)"
  have i8: "py_int ''8'' = Inr 8"
    by (simp add: py_int_def is_space_def is_digit_def digits_value_def Let_def)
  have sd: "seed ?I < 2 ^ 32" by simp
  have le: "(0 :: nat) < 8" "(8 :: nat) \<le> 8" "(8 :: nat) \<le> 8" by simp_all
  from shuffle_blocks_scatter [OF wf_iota tshape_iota le sd demo_perm_valid]
  obtain out where "shuffle_blocks demo_env ?L ?I (int 8) = Inr out" by blast
  then have "shuffle_latent demo_env ?L ?I ''foo_8'' = Inr out"
    by (simp add: shuffle_latent_def i8)
  then have "try_block demo_env ?L demo_gp ?I (1 / 2) ''foo_8''
      = Inr (blend_samples demo_env (1 / 2) ?L out,
             build_verification_info ?I (1 / 2) ''foo_8'' (tshape ?L) demo_gp)"
    by (simp add: try_block_def demo_env_def tshape_iota)
  then show ?thesis
    by (simp add: sample_def derive_alice blend_threshold_def tshape_iota signature_of_def)
qed

text \<open>
  A second field that parses does not always sign: "block_0" raises ZeroDivisionError
  inside the \<open>try\<close> block and ends in the fallback.
\<close>
lemma zero_block_size_falls_back:
  "sample demo_env 0 (iota_tensor (1, 1, 2, 2)) demo_gp alice (1 / 2) ''block_0''
     = Inr \<lparr>signed_latent = iota_tensor (1, 1, 2, 2), signature = ''error'',
            verification_info = None\<rparr>"
proof -
  have i0: "py_int ''0'' = Inr 0"
    by (simp add: py_int_def is_space_def is_digit_def digits_value_def Let_def)
  show ?thesis
    by (simp add: sample_def derive_alice blend_threshold_def try_block_def demo_env_def
          tshape_iota shuffle_latent_def i0 zero_block_size_raises)
qed

text \<open>
  C10, amended. With a ratio above the threshold and an encodable key, every mode string
  other than "pixel" that has no second field after splitting at "_", or whose second
  field \<open>int()\<close> rejects, ends in the fallback: the input latent is passed on unchanged,
  the signature is "error", and nothing is raised.
\<close>
theorem unparsable_mode_falls_back:
  assumes "blend_threshold < crypto_blend"
    and "encode_utf8 artist_key = Inr encoded"
    and "shuffle_mode \<noteq> ''pixel''"
    and "case split_on CHR ''_'' shuffle_mode of
           _ # field # _ \<Rightarrow> py_int field = Inl (Raised ValueError) | _ \<Rightarrow> True"
  shows "sample env now latent_image gp artist_key crypto_blend shuffle_mode
           = Inr \<lparr>signed_latent = latent_image, signature = ''error'', verification_info = None\<rparr>"
proof -
  obtain ident where d: "derive_crypto_identity now artist_key (tshape latent_image) = Inr ident"
    using assms(2) by (simp add: derive_crypto_identity_def Let_def)
  have sh: "\<exists>e. shuffle_latent env t ident shuffle_mode = Inl (Raised e)" for t
    using assms(3,4) by (auto simp: shuffle_latent_def split: list.splits)
  have "\<exists>e. try_block env latent_image gp ident crypto_blend shuffle_mode = Inl (Raised e)"
  proof (cases "randn env (seed ident) (tshape latent_image)")
    case (Inl e)
    then show ?thesis by (simp add: try_block_def)
  next
    case (Inr crypto_base)
    with sh [of crypto_base] show ?thesis by (auto simp: try_block_def)
  qed
  then show ?thesis using assms(1) d by (auto simp: sample_def)
qed

theorem unparsable_mode_falls_back_witness:
  "blend_threshold < 1 / 2 \<and> encode_utf8 alice = Inr [97, 108, 105, 99, 101]
   \<and> ''block_x'' \<noteq> ''pixel''
   \<and> split_on CHR ''_'' ''block_x'' = [''block'', ''x'']
   \<and> py_int ''x'' = Inl (Raised ValueError)
   \<and> sample demo_env 0 (iota_tensor (1, 1, 2, 2)) demo_gp alice (1 / 2) ''block_x''
       = Inr \<lparr>signed_latent = iota_tensor (1, 1, 2, 2), signature = ''error'',
              verification_info = None\<rparr>"
proof -
  have a: "blend_threshold < 1 / 2" by (simp add: blend_threshold_def)
  have b: "''block_x'' \<noteq> ''pixel''" by simp
  have c: "split_on CHR ''_'' ''block_x'' = [''block'', ''x'']" by simp
  have d: "py_int ''x'' = Inl (Raised ValueError)"
    by (simp add: py_int_def is_space_def is_digit_def Let_def)
  have e: "case split_on CHR ''_'' ''block_x'' of
             _ # field # _ \<Rightarrow> py_int field = Inl (Raised ValueError) | _ \<Rightarrow> True"
    by (simp add: c d)
  from unparsable_mode_falls_back [OF a encode_alice b e] a encode_alice b c d
  show ?thesis by simp
qed

section \<open>Claims about the blend\<close>

lemma wf_channel_nth:
  assumes "wf_channel H W ch" "y < H"
  shows "length ch = H" "length (ch ! y) = W"
  using assms by (auto simp: wf_channel_def)

lemma blend_samples_elem:
  assumes "wf_tensor samples" "wf_tensor noise" "tshape noise = tshape samples"
    and "tshape samples = (B, C, H, W)" and "r < 1"
    and "b < B" "c < C" "y < H" "x < W"
  shows "elem (blend_samples env r samples noise) b c y x
           = tadd env (tmul env (elem samples b c y x) (1 - r)) (tmul env (elem noise b c y x) r)"
proof -
  have ns: "tshape noise = (B, C, H, W)" using assms(3,4) by simp
  note ws = wf_tensor_nth [OF assms(1,4,6,7)]
  note wn = wf_tensor_nth [OF assms(2) ns assms(6,7)]
  have s: "length (vals samples) = B" "length (vals samples ! b) = C"
     "length (vals samples ! b ! c) = H" "length (vals samples ! b ! c ! y) = W"
    using ws wf_channel_nth [OF ws(3) assms(8)] by simp_all
  have n: "length (vals noise) = B" "length (vals noise ! b) = C"
     "length (vals noise ! b ! c) = H" "length (vals noise ! b ! c ! y) = W"
    using wn wf_channel_nth [OF wn(3) assms(8)] by simp_all
  show ?thesis
    using assms(5-9) s n by (simp add: blend_samples_def elem_def)
qed

text \<open>
  C3. Above the threshold, when the identity, the noise and its shuffle are produced, the
  latent passed on has the value original * (1 - r) + shuffled * r at every index for a
  ratio below 1, and is the shuffled noise itself, with no arithmetic applied, from ratio
  1 on. The element arithmetic is the library's (\<open>tmul\<close>, \<open>tadd\<close>).
\<close>
theorem blend_linear:
  assumes "blend_threshold < crypto_blend"
    and "derive_crypto_identity now artist_key (tshape samples) = Inr ident"
    and "randn env (seed ident) (tshape samples) = Inr crypto_base"
    and "shuffle_latent env crypto_base ident shuffle_mode = Inr crypto_noise"
    and "wf_tensor samples" "wf_tensor crypto_noise" "tshape crypto_noise = tshape samples"
    and "tshape samples = (B, C, H, W)"
  shows "\<exists>s. sample env now samples gp artist_key crypto_blend shuffle_mode = Inr s
           \<and> signature s = signature_of ident
           \<and> (if crypto_blend < 1
              then tshape (signed_latent s) = (B, C, H, W)
                 \<and> (\<forall>b<B. \<forall>c<C. \<forall>y<H. \<forall>x<W.
                      elem (signed_latent s) b c y x
                        = tadd env (tmul env (elem samples b c y x) (1 - crypto_blend))
                            (tmul env (elem crypto_noise b c y x) crypto_blend))
              else signed_latent s = crypto_noise)"
proof -
  have run: "sample env now samples gp artist_key crypto_blend shuffle_mode
      = Inr \<lparr>signed_latent = blend_samples env crypto_blend samples crypto_noise,
             signature = signature_of ident,
             verification_info = Some (build_verification_info ident crypto_blend shuffle_mode
                (tshape samples) gp)\<rparr>"
    using assms(1-4) by (simp add: sample_def try_block_def)
  show ?thesis
  proof (cases "crypto_blend < 1")
    case True
    have "tshape (blend_samples env crypto_blend samples crypto_noise) = (B, C, H, W)"
      using True assms(8) by (simp add: blend_samples_def)
    with True run blend_samples_elem [OF assms(5-8) True] show ?thesis by simp
  next
    case False
    with run show ?thesis by (simp add: blend_samples_def)
  qed
qed

theorem blend_linear_witness:
  "blend_threshold < 1 / 2
   \<and> derive_crypto_identity 0 alice (tshape (iota_tensor (1, 1, 2, 2)))
       = Inr \<lparr>key_hash = ''2bd806c97f0e00af1a1fc3328fa763a9269723c8db8fac4f93af71db186d6e90'',
              seed = 2131624111, artist_key_length = 5, shape = (1, 1, 2, 2), timestamp = 0\<rparr>
   \<and> randn demo_env 2131624111 (1, 1, 2, 2) = Inr (iota_tensor (1, 1, 2, 2))
   \<and> wf_tensor (iota_tensor (1, 1, 2, 2))
   \<and> wf_tensor \<lparr>tshape = (1, 1, 2, 2), vals = [[[[3, 0], [1, 2 :: real]]]]\<rparr>
   \<and> (\<exists>s. sample demo_env 0 (iota_tensor (1, 1, 2, 2)) demo_gp alice (1 / 2) ''block_1'' = Inr s
        \<and> signature s = ''CN-2bd806c97f0e00af''
        \<and> elem (signed_latent s) 0 0 0 0 = 3 / 2
        \<and> elem (signed_latent s) 0 0 1 1 = 5 / 2)"
proof -
  let ?L = "iota_tensor (1, 1, 2, 2)"
  let ?N = "\<lparr>tshape = (1, 1, 2, 2), vals = [[[[3, 0], [1, 2 :: real]]]]\<rparr>"
  let ?I = "\<lparr>key_hash = ''2bd806c97f0e00af1a1fc3328fa763a9269723c8db8fac4f93af71db186d6e90'',
              seed = 2131624111, artist_key_length = 5, shape = (1, 1, 2, 2), timestamp = 0 :: real\<rparr>"
  have sh: "tshape ?L = (1, 1, 2, 2)" by (rule tshape_iota)
  note sh' = sh [simplified]
  have h1: "blend_threshold < 1 / 2" by (simp add: blend_threshold_def)
  have h2: "derive_crypto_identity 0 alice (tshape ?L) = Inr ?I" by (simp add: tshape_iota derive_alice)
  have h3: "randn demo_env (seed ?I) (tshape ?L) = Inr ?L" by (simp add: tshape_iota demo_env_def)
  have h4: "shuffle_latent demo_env ?L ?I ''block_1'' = Inr ?N" by (rule demo_block_1) simp
  have h5: "wf_tensor ?L" by (rule wf_iota)
  have h6: "wf_tensor ?N" by (simp add: wf_tensor_def wf_channel_def)
  have h7: "tshape ?N = tshape ?L" by (simp add: tshape_iota)
  from blend_linear [OF h1 h2 h3 h4 h5 h6 h7 sh, of demo_gp]
  obtain s where s: "sample demo_env 0 ?L demo_gp alice (1 / 2) ''block_1'' = Inr s"
      "signature s = signature_of ?I"
      "\<forall>b<1. \<forall>c<1. \<forall>y<2. \<forall>x<2. elem (signed_latent s) b c y x
          = tadd demo_env (tmul demo_env (elem ?L b c y x) (1 - 1 / 2))
              (tmul demo_env (elem ?N b c y x) (1 / 2))"
    by auto
  have e0: "elem (signed_latent s) 0 0 0 0 = 3 / 2"
    using s(3) by (simp add: elem_def iota_2x2 [simplified] demo_env_def)
  have e1: "elem (signed_latent s) 0 0 1 1 = 5 / 2"
    using s(3) by (simp add: elem_def iota_2x2 [simplified] demo_env_def)
  from s(1,2) e0 e1 h1 h2 h3 h5 h6 show ?thesis
    by (simp add: signature_of_def tshape_iota)
qed

section \<open>Claims about the pixel shuffle\<close>

text \<open>
  C7. The seed of the slice (b, c) is the sum seed + b * C + c, with no reduction. The
  identity seed ranges over all 32-bit values ("limited to 32-bit for numpy"), so for the
  largest of them the second slice asks for \<open>RandomState(4294967296)\<close>, which numpy
  rejects: no permutation is drawn and the shuffle raises ValueError.
\<close>
theorem pixel_seed_overflow:
  "shuffle_pixels demo_env \<lparr>tshape = (1, 2, 1, 1), vals = [[[[0]], [[1]]]]\<rparr>
     \<lparr>key_hash = '''', seed = 4294967295, artist_key_length = 0, shape = (1, 2, 1, 1),
      timestamp = 0\<rparr> = Inl (Raised ValueError)"
  by (simp add: shuffle_pixels_def shuffle_pixels_slice_def RandomState_permutation_def
        gather_def reshape_def demo_env_def Let_def upt_0_numeral upt_1_numeral)

section \<open>Claims about the block shuffle\<close>

text \<open>
  C6, as stated: output block i equals input block permutation[i]. On the 2 by 2 tensor
  with block size 1 the drawn permutation is 1, 2, 3, 0; output block 0 holds 3, the value
  of input block 3, and not 1, the value of input block permutation[0] = 1.
\<close>
theorem block_gather_counterexample:
  "shuffle_blocks demo_env (iota_tensor (1, 1, 2, 2))
     \<lparr>key_hash = ''2bd806c97f0e00af1a1fc3328fa763a9269723c8db8fac4f93af71db186d6e90'',
      seed = 2131624111, artist_key_length = 5, shape = (1, 1, 2, 2), timestamp = 0\<rparr> 1
     = Inr \<lparr>tshape = (1, 1, 2, 2), vals = [[[[3, 0], [1, 2]]]]\<rparr>
   \<and> permutation demo_env 2131624111 4 ! 0 = 1
   \<and> elem \<lparr>tshape = (1, 1, 2, 2), vals = [[[[3, 0], [1, 2 :: real]]]]\<rparr> 0 0 0 0
       \<noteq> elem (iota_tensor (1, 1, 2, 2)) 0 0 0 1"
proof -
  have a: "shuffle_blocks demo_env (iota_tensor (1, 1, 2, 2))
     \<lparr>key_hash = ''2bd806c97f0e00af1a1fc3328fa763a9269723c8db8fac4f93af71db186d6e90'',
      seed = 2131624111, artist_key_length = 5, shape = (1, 1, 2, 2), timestamp = 0\<rparr> 1
     = Inr \<lparr>tshape = (1, 1, 2, 2), vals = [[[[3, 0], [1, 2]]]]\<rparr>"
    unfolding iota_2x2 by (rule demo_blocks_2x2) simp
  have b: "permutation demo_env 2131624111 4 ! 0 = 1" by (simp add: demo_perm_4)
  have c: "elem \<lparr>tshape = (1, 1, 2, 2), vals = [[[[3, 0], [1, 2 :: real]]]]\<rparr> 0 0 0 0
       \<noteq> elem (iota_tensor (1, 1, 2, 2)) 0 0 0 1"
    by (simp add: elem_def iota_2x2 [simplified])
  from a b c show ?thesis by blast
qed

text \<open>
  C6, amended. In block mode with block size S, for a tensor with \<open>H \<ge> S\<close> and
  \<open>W \<ge> S\<close>, one permutation of the \<open>(H div S) * (W div S)\<close> block indices is drawn
  from \<open>RandomState(seed)\<close> and used for every slice \<open>(b, c)\<close>. Input block \<open>idx\<close>
  is written to output block \<open>permutation[idx]\<close>, blocks numbered in row-major
  order inside the top-left \<open>(H div S) * S\<close> by \<open>(W div S) * S\<close> region; the rows and
  columns outside that region are unchanged. The hypotheses are that the seed is one numpy
  accepts, as every derived seed is, and that the draw is a permutation of the indices, which
  is numpy's contract.
\<close>
theorem block_shuffle_scatters:
  assumes "wf_tensor latent" and "tshape latent = (B, C, H, W)"
    and "0 < S" "S \<le> H" "S \<le> W"
    and "seed ident < 2 ^ 32"
    and "mset (permutation env (seed ident) ((H div S) * (W div S)))
           = mset [0..<(H div S) * (W div S)]"
  shows "\<exists>out. shuffle_blocks env latent ident (int S) = Inr out
           \<and> tshape out = (B, C, H, W)
           \<and> (\<forall>b<B. \<forall>c<C.
                (\<forall>idx<(H div S) * (W div S). \<forall>dy<S. \<forall>dx<S.
                   elem out b c
                     ((permutation env (seed ident) ((H div S) * (W div S)) ! idx div (W div S)) * S + dy)
                     ((permutation env (seed ident) ((H div S) * (W div S)) ! idx mod (W div S)) * S + dx)
                   = elem latent b c ((idx div (W div S)) * S + dy) ((idx mod (W div S)) * S + dx))
                \<and> (\<forall>y<H. \<forall>x<W. \<not> (y < (H div S) * S \<and> x < (W div S) * S)
                       \<longrightarrow> elem out b c y x = elem latent b c y x))"
proof -
  let ?bh = "H div S" and ?bw = "W div S"
  let ?p = "permutation env (seed ident) (?bh * ?bw)"
  note p = perm_of_range [OF assms(7)]
  from shuffle_blocks_scatter [OF assms]
  obtain out where run: "shuffle_blocks env latent ident (int S) = Inr out"
    and shp: "tshape out = (B, C, H, W)"
    and sl: "\<forall>b<B. \<forall>c<C. shuffle_blocks_slice env H W (int S) (int ?bh) (int ?bw) ?p
                (vals latent ! b ! c) = Inr (vals out ! b ! c)"
    by blast
  have "(\<forall>idx<?bh * ?bw. \<forall>dy<S. \<forall>dx<S.
           elem out b c ((?p ! idx div ?bw) * S + dy) ((?p ! idx mod ?bw) * S + dx)
             = elem latent b c ((idx div ?bw) * S + dy) ((idx mod ?bw) * S + dx))
        \<and> (\<forall>y<H. \<forall>x<W. \<not> (y < ?bh * S \<and> x < ?bw * S)
               \<longrightarrow> elem out b c y x = elem latent b c y x)"
    if bc: "b < B" "c < C" for b c
    using shuffle_blocks_slice_scatter [OF assms(3) refl refl p
        wf_tensor_nth(3) [OF assms(1,2) bc], of env] sl bc
    by (simp add: elem_def)
  with run shp show ?thesis by blast
qed

theorem block_shuffle_scatters_witness:
  "wf_tensor (iota_tensor (1, 1, 2, 5)) \<and> tshape (iota_tensor (1, 1, 2, 5)) = (1, 1, 2, 5)
   \<and> (0 :: nat) < 2 \<and> (2 :: nat) \<le> 2 \<and> (2 :: nat) \<le> 5
   \<and> seed \<lparr>key_hash = '''', seed = 7, artist_key_length = 0, shape = (1, 1, 2, 5),
            timestamp = 0\<rparr> < 2 ^ 32
   \<and> mset (permutation demo_env 7 2) = mset [0..<2]
   \<and> permutation demo_env 7 2 = [1, 0]
   \<and> (\<exists>out. shuffle_blocks demo_env (iota_tensor (1, 1, 2, 5))
                \<lparr>key_hash = '''', seed = 7, artist_key_length = 0, shape = (1, 1, 2, 5),
                 timestamp = 0\<rparr> 2 = Inr out
          \<and> tshape out = (1, 1, 2, 5)
          \<and> elem out 0 0 1 3 = 6 \<and> elem out 0 0 1 4 = 9)"
proof -
  let ?I = "\<lparr>key_hash = '''', seed = 7, artist_key_length = 0, shape = (1, 1, 2, 5),
            timestamp = 0 :: real\<rparr>"
  let ?L = "iota_tensor (1, 1, 2, 5)"
  have h1: "wf_tensor ?L" by (rule wf_iota)
  have h2: "tshape ?L = (1, 1, 2, 5)" by (rule tshape_iota)
  have h3: "(0 :: nat) < 2" "(2 :: nat) \<le> 2" "(2 :: nat) \<le> 5" by simp_all
  have h4: "seed ?I < 2 ^ 32" by simp
  have n: "(2 :: nat) div 2 * (5 div 2) = 2" by simp
  have h5: "mset (permutation demo_env (seed ?I) (2 div 2 * (5 div 2)))
              = mset [0..<2 div 2 * (5 div 2)]"
    by (rule demo_perm_valid)
  have p: "permutation demo_env 7 2 = [1, 0]"
    by (simp add: demo_env_def upt_0_numeral upt_1_numeral)
  have v: "mset (permutation demo_env 7 2) = mset [0..<2]" by (rule demo_perm_valid)
  from block_shuffle_scatters [OF h1 h2 h3 h4 h5]
  obtain out where run: "shuffle_blocks demo_env ?L ?I (int 2) = Inr out"
    and shp: "tshape out = (1, 1, 2, 5)"
    and blk: "\<forall>idx<2 div 2 * (5 div 2). \<forall>dy<2. \<forall>dx<2.
                   elem out 0 0
                     ((permutation demo_env (seed ?I) (2 div 2 * (5 div 2)) ! idx div (5 div 2)) * 2 + dy)
                     ((permutation demo_env (seed ?I) (2 div 2 * (5 div 2)) ! idx mod (5 div 2)) * 2 + dx)
                   = elem ?L 0 0 ((idx div (5 div 2)) * 2 + dy) ((idx mod (5 div 2)) * 2 + dx)"
    and rest: "\<forall>y<2. \<forall>x<5. \<not> (y < (2 div 2) * 2 \<and> x < (5 div 2) * 2)
                       \<longrightarrow> elem out 0 0 y x = elem ?L 0 0 y x"
    by auto
  have e1: "elem out 0 0 1 3 = 6"
    using blk [rule_format, of 0 1 1] by (simp add: n p elem_iota)
  have e2: "elem out 0 0 1 4 = 9"
    using rest [rule_format, of 1 4] by (simp add: elem_iota)
  from run shp e1 e2 h1 h2 p v show ?thesis by simp
qed



end
